theory Spec2Isabelle
  imports
    Main
    "HOL-Library.AList"
    "HOL-Library.Char_ord"
    "HOL-Library.List_Lexorder"
    "HOL-Library.Multiset"
begin

section \<open>The accessor generator of accessory\<close>

text \<open>
  A shallow embedding of the package \<^verbatim>\<open>generator\<close>: \<^verbatim>\<open>Generate\<close>, \<^verbatim>\<open>write\<close>,
  \<^verbatim>\<open>setterGenerator\<close>, \<^verbatim>\<open>getterGenerator\<close>, \<^verbatim>\<open>receiverName\<close>, \<^verbatim>\<open>outputFile\<close> and
  \<^verbatim>\<open>format\<close>. The functions keep their names, but for \<^verbatim>\<open>write\<close>, a keyword of Isabelle,
  which is \<^verbatim>\<open>write_buf\<close> here. A Go string is a sequence of bytes, so it is a
  \<^typ>\<open>string\<close> here: one \<^typ>\<open>char\<close> per byte, a character outside ASCII being the bytes
  of its UTF-8 encoding.
\<close>

subsection \<open>The source model\<close>

text \<open>
  The declarations of the package \<^verbatim>\<open>types\<close>, as the generator reads them. A Go pointer
  that may be nil is an \<^typ>\<open>'a option\<close>. Three of the structs call a field \<^verbatim>\<open>Name\<close>;
  the records tell them apart by a prefix.
\<close>

record Import =
  ImportName :: string
  PkgPath :: string

record Tag =
  Getter :: "string option"
  Setter :: "string option"

record Field =
  FieldName :: string
  DataType :: string
  FieldTag :: "Tag option"

record Struct =
  StructName :: string
  Fields :: "Field list"

record File =
  Imports :: "Import list"
  Structs :: "Struct list"

record Package =
  PkgName :: string
  Dir :: string
  Files :: "File list"

text \<open>
  What can go wrong: the two run-time panics the generator's code can reach, the error of
  a template execution, of the formatter and of the file system.
\<close>

datatype error =
  IndexOutOfRange | NilDereference | TemplateError | FormatError | PersistError

text \<open>
  A Go \<^verbatim>\<open>map[string]string\<close> that is only ever extended: the entries in the order of
  their insertion, every key once. The order in which Go ranges over a map is not that
  order; it is a parameter of the environment below.
\<close>

type_synonym importMap = "(string \<times> string) list"

text \<open>
  The tables of the package \<^verbatim>\<open>unicode\<close> for the code points from U+0100 on: the case
  mappings of \<^verbatim>\<open>CaseRanges\<close> to lower and to title case, and the range tables \<^verbatim>\<open>Letter\<close>,
  \<^verbatim>\<open>Digit\<close> and \<^verbatim>\<open>White_Space\<close>. They come with the Go distribution and change with its
  version, so they are a parameter. A code point, a \<^verbatim>\<open>rune\<close> of Go, is a natural number.
\<close>

record tables =
  CaseRanges_lower :: "nat \<Rightarrow> nat"
  CaseRanges_title :: "nat \<Rightarrow> nat"
  table_Letter :: "nat \<Rightarrow> bool"
  table_Digit :: "nat \<Rightarrow> bool"
  table_White_Space :: "nat \<Rightarrow> bool"

text \<open>
  What the generator takes from outside: the formatter of the Go distribution, the two
  path functions (they depend on the platform), the file system behind \<^verbatim>\<open>afero.Fs\<close> (a
  write returns the file system after it and an error or nil; the permission bits are
  left out), the order in which the run time ranges over the keys of a map and the
  tables of Unicode.
\<close>

record 'fs env =
  format_Source :: "string \<Rightarrow> error + string"
  filepath_Base :: "string \<Rightarrow> string"
  filepath_Join :: "string \<Rightarrow> string \<Rightarrow> string"
  afero_WriteFile :: "'fs \<Rightarrow> string \<Rightarrow> string \<Rightarrow> 'fs \<times> error option"
  range_keys :: "importMap \<Rightarrow> string list"
  unicode :: tables

subsection \<open>Bytes and letters of ASCII\<close>

definition isUpperAZ :: "char \<Rightarrow> bool" where
  "isUpperAZ c = (CHR ''A'' \<le> c \<and> c \<le> CHR ''Z'')"

definition isLowerAZ :: "char \<Rightarrow> bool" where
  "isLowerAZ c = (CHR ''a'' \<le> c \<and> c \<le> CHR ''z'')"

definition isDigit09 :: "char \<Rightarrow> bool" where
  "isDigit09 c = (CHR ''0'' \<le> c \<and> c \<le> CHR ''9'')"

definition ascii_lower :: "char \<Rightarrow> char" where
  "ascii_lower c = (if isUpperAZ c then char_of (of_char c + (32::nat)) else c)"

subsection \<open>Runes\<close>

text \<open>
  \<^verbatim>\<open>utf8.DecodeRuneInString\<close>: the first code point of a text and the number of its bytes.
  A first byte below 0x80 is its own code point; the bytes 0xC2 to 0xF4 begin a sequence
  of two, three or four bytes, whose second byte has the range that the first byte
  allows; everything else, a sequence cut short too, is the code point U+FFFD of width 1.
\<close>

definition RuneError :: nat where
  "RuneError = 0xFFFD"

definition DecodeRune :: "string \<Rightarrow> nat \<times> nat" where
  "DecodeRune s =
     (case s of
        [] \<Rightarrow> (RuneError, 0)
      | c0 # _ \<Rightarrow>
          (let s0 = (of_char c0 :: nat)
           in if s0 < 0x80 then (s0, 1)
              else if s0 < 0xC2 \<or> 0xF4 < s0 then (RuneError, 1)
              else
                (let sz = (if s0 < 0xE0 then 2 else if s0 < 0xF0 then 3 else (4::nat));
                     lo = (if s0 = 0xE0 then 0xA0 else if s0 = 0xF0 then 0x90 else (0x80::nat));
                     hi = (if s0 = 0xED then 0x9F else if s0 = 0xF4 then 0x8F else (0xBF::nat))
                 in if length s < sz then (RuneError, 1)
                    else
                      (let s1 = (of_char (s ! 1) :: nat)
                       in if s1 < lo \<or> hi < s1 then (RuneError, 1)
                          else if sz \<le> 2 then (s0 mod 32 * 64 + s1 mod 64, 2)
                          else
                            (let s2 = (of_char (s ! 2) :: nat)
                             in if s2 < 0x80 \<or> 0xBF < s2 then (RuneError, 1)
                                else if sz \<le> 3
                                then (s0 mod 16 * 4096 + s1 mod 64 * 64 + s2 mod 64, 3)
                                else
                                  (let s3 = (of_char (s ! 3) :: nat)
                                   in if s3 < 0x80 \<or> 0xBF < s3 then (RuneError, 1)
                                      else (s0 mod 8 * 262144 + s1 mod 64 * 4096
                                              + s2 mod 64 * 64 + s3 mod 64, 4)))))))"

text \<open>The code points of a text, as a \<^verbatim>\<open>range\<close> loop over a string meets them.\<close>

function runes :: "string \<Rightarrow> nat list" where
  "runes [] = []"
| "runes (c # cs) =
     fst (DecodeRune (c # cs)) # runes (drop (snd (DecodeRune (c # cs)) - 1) cs)"
  by pat_completeness auto
termination
  by (relation "measure length") simp_all

text \<open>
  \<^verbatim>\<open>utf8.EncodeRune\<close>: one to four bytes; a surrogate half and a number beyond U+10FFFF
  are written as U+FFFD.
\<close>

definition EncodeRune :: "nat \<Rightarrow> string" where
  "EncodeRune r =
     (if r \<le> 0x7F then [char_of r]
      else if r \<le> 0x7FF then [char_of (0xC0 + r div 64), char_of (0x80 + r mod 64)]
      else if 0x10FFFF < r \<or> (0xD800 \<le> r \<and> r \<le> 0xDFFF)
      then [CHR 0xEF, CHR 0xBF, CHR 0xBD]
      else if r \<le> 0xFFFF
      then [char_of (0xE0 + r div 4096), char_of (0x80 + r div 64 mod 64),
            char_of (0x80 + r mod 64)]
      else [char_of (0xF0 + r div 262144), char_of (0x80 + r div 4096 mod 64),
            char_of (0x80 + r div 64 mod 64), char_of (0x80 + r mod 64)])"

text \<open>
  \<^verbatim>\<open>strings.Map\<close> with a mapping that drops no code point: every code point of the text is
  mapped and written in UTF-8, so a byte that is no UTF-8 becomes the image of U+FFFD.
\<close>

definition strings_Map :: "(nat \<Rightarrow> nat) \<Rightarrow> string \<Rightarrow> string" where
  "strings_Map mapping s = concat (map (\<lambda>c. EncodeRune (mapping c)) (runes s))"

subsection \<open>The functions of the package unicode\<close>

text \<open>
  \<^verbatim>\<open>unicode.ToLower\<close> and \<^verbatim>\<open>unicode.ToTitle\<close> decide ASCII themselves and look everything
  else up in \<^verbatim>\<open>CaseRanges\<close>. The rows of that table below U+0100 are written out here: the
  capitals U+00C0 to U+00DE (without the sign U+00D7) are 32 below their small letters,
  the micro sign U+00B5 has the capital U+039C and the small y with diaeresis U+00FF the
  capital U+0178.
\<close>

definition unicode_ToLower :: "tables \<Rightarrow> nat \<Rightarrow> nat" where
  "unicode_ToLower tb r =
     (if r \<le> 0x7F then (if 0x41 \<le> r \<and> r \<le> 0x5A then r + 32 else r)
      else if r \<le> 0xFF
      then (if (0xC0 \<le> r \<and> r \<le> 0xD6) \<or> (0xD8 \<le> r \<and> r \<le> 0xDE) then r + 32 else r)
      else CaseRanges_lower tb r)"

definition unicode_ToTitle :: "tables \<Rightarrow> nat \<Rightarrow> nat" where
  "unicode_ToTitle tb r =
     (if r \<le> 0x7F then (if 0x61 \<le> r \<and> r \<le> 0x7A then r - 32 else r)
      else if r \<le> 0xFF
      then (if r = 0xB5 then 0x39C
            else if (0xE0 \<le> r \<and> r \<le> 0xF6) \<or> (0xF8 \<le> r \<and> r \<le> 0xFE) then r - 32
            else if r = 0xFF then 0x178
            else r)
      else CaseRanges_title tb r)"

text \<open>
  \<^verbatim>\<open>unicode.IsLetter\<close>, \<^verbatim>\<open>unicode.IsDigit\<close> and \<^verbatim>\<open>unicode.IsSpace\<close> decide the code points
  up to U+00FF themselves and look the others up in their tables.
\<close>

definition unicode_IsLetter :: "tables \<Rightarrow> nat \<Rightarrow> bool" where
  "unicode_IsLetter tb r =
     (if r \<le> 0xFF
      then (0x41 \<le> r \<and> r \<le> 0x5A) \<or> (0x61 \<le> r \<and> r \<le> 0x7A) \<or> r = 0xAA \<or> r = 0xB5
             \<or> r = 0xBA \<or> (0xC0 \<le> r \<and> r \<le> 0xD6) \<or> (0xD8 \<le> r \<and> r \<le> 0xF6) \<or> 0xF8 \<le> r
      else table_Letter tb r)"

definition unicode_IsDigit :: "tables \<Rightarrow> nat \<Rightarrow> bool" where
  "unicode_IsDigit tb r = (if r \<le> 0xFF then 0x30 \<le> r \<and> r \<le> 0x39 else table_Digit tb r)"

definition unicode_IsSpace :: "tables \<Rightarrow> nat \<Rightarrow> bool" where
  "unicode_IsSpace tb r =
     (if r \<le> 0xFF
      then r = 0x09 \<or> r = 0x0A \<or> r = 0x0B \<or> r = 0x0C \<or> r = 0x0D \<or> r = 0x20 \<or> r = 0x85
             \<or> r = 0xA0
      else table_White_Space tb r)"

subsection \<open>The functions of the package strings\<close>

text \<open>
  \<^verbatim>\<open>strings.ToLower\<close>: a text of ASCII bytes alone is lowered byte by byte, every other
  text code point by code point with \<^verbatim>\<open>strings.Map\<close>.
\<close>

definition strings_ToLower :: "tables \<Rightarrow> string \<Rightarrow> string" where
  "strings_ToLower tb s =
     (if list_all (\<lambda>c. c < CHR 0x80) s then map ascii_lower s
      else strings_Map (unicode_ToLower tb) s)"

text \<open>
  \<^verbatim>\<open>strings.Title\<close> maps every letter that begins a word to its title case; a word begins
  after a separator, and the text begins as if after a space. The letters, the digits and
  the underscore of ASCII are no separators, every other ASCII code point is one; beyond
  ASCII a letter and a digit are no separators, and of the rest the spaces are. The
  mapping remembers the code point before, so it is written out over the code points of
  the text, which \<^verbatim>\<open>strings.Map\<close> hands to it once each and in order.
\<close>

definition isSeparator :: "tables \<Rightarrow> nat \<Rightarrow> bool" where
  "isSeparator tb r =
     (if r \<le> 0x7F
      then \<not> ((0x30 \<le> r \<and> r \<le> 0x39) \<or> (0x61 \<le> r \<and> r \<le> 0x7A) \<or> (0x41 \<le> r \<and> r \<le> 0x5A)
               \<or> r = 0x5F)
      else if unicode_IsLetter tb r \<or> unicode_IsDigit tb r then False
      else unicode_IsSpace tb r)"

fun title_from :: "tables \<Rightarrow> nat \<Rightarrow> nat list \<Rightarrow> nat list" where
  "title_from tb prev [] = []"
| "title_from tb prev (r # rs) =
     (if isSeparator tb prev then unicode_ToTitle tb r else r) # title_from tb r rs"

definition strings_Title :: "tables \<Rightarrow> string \<Rightarrow> string" where
  "strings_Title tb s = concat (map EncodeRune (title_from tb 0x20 (runes s)))"

text \<open>\<^verbatim>\<open>strings.TrimPrefix\<close>: the text without the prefix, when it starts with it.\<close>

definition strings_TrimPrefix :: "string \<Rightarrow> string \<Rightarrow> string" where
  "strings_TrimPrefix s prefix =
     (if take (length prefix) s = prefix then drop (length prefix) s else s)"

text \<open>
  \<^verbatim>\<open>strings.Split\<close> at a separator of one byte: the pieces between the separators, one
  more than there are separators.
\<close>

fun strings_Split :: "string \<Rightarrow> char \<Rightarrow> string list" where
  "strings_Split [] sep = [[]]"
| "strings_Split (c # cs) sep =
     (if c = sep then [] # strings_Split cs sep
      else (case strings_Split cs sep of
              [] \<Rightarrow> [[c]]
            | piece # pieces \<Rightarrow> (c # piece) # pieces))"

text \<open>Indexing a slice at 0 panics when the slice is empty.\<close>

definition index0 :: "'a list \<Rightarrow> error + 'a" where
  "index0 xs = (case xs of [] \<Rightarrow> Inl IndexOutOfRange | x # _ \<Rightarrow> Inr x)"

text \<open>
  The conversion \<^verbatim>\<open>string(b)\<close> of a byte: the UTF-8 encoding of the code point with the
  number of the byte, two bytes from 0x80 on.
\<close>

definition string_of_byte :: "char \<Rightarrow> string" where
  "string_of_byte b =
     (let n = (of_char b :: nat)
      in if n < 128 then [b] else [char_of (192 + n div 64), char_of (128 + n mod 64)])"

subsection \<open>Templates\<close>

text \<open>
  A parsed template is a sequence of literal text and of actions \<^verbatim>\<open>{{.Key}}\<close>. Executing it
  on a \<^verbatim>\<open>map[string]string\<close> writes the text and, for an action, the value of the key (the
  empty string for a key the map does not have). On such data no action fails.
\<close>

datatype piece = Lit string | Dot string

fun lookup_key :: "(string \<times> string) list \<Rightarrow> string \<Rightarrow> string" where
  "lookup_key [] k = []"
| "lookup_key ((k', v) # kvs) k = (if k' = k then v else lookup_key kvs k)"

fun exec_piece :: "(string \<times> string) list \<Rightarrow> piece \<Rightarrow> string" where
  "exec_piece data (Lit s) = s"
| "exec_piece data (Dot k) = lookup_key data k"

definition Execute :: "piece list \<Rightarrow> (string \<times> string) list \<Rightarrow> error + string" where
  "Execute t data = Inr (concat (map (exec_piece data) t))"

definition setter_tpl :: "piece list" where
  "setter_tpl =
     [Lit ''\<newline>func ('', Dot ''Receiver'', Lit '' *'', Dot ''Struct'', Lit '') '',
      Dot ''MethodName'', Lit ''(val '', Dot ''Type'', Lit '') {\<newline>'',
      Lit [CHR 0x09], Dot ''Receiver'', Lit ''.'', Dot ''Field'', Lit '' = val\<newline>}'']"

definition getter_tpl :: "piece list" where
  "getter_tpl =
     [Lit ''\<newline>func ('', Dot ''Receiver'', Lit '' *'', Dot ''Struct'', Lit '') '',
      Dot ''MethodName'', Lit ''() '', Dot ''Type'', Lit '' {\<newline>'',
      Lit (CHR 0x09 # ''return ''), Dot ''Receiver'', Lit ''.'', Dot ''Field'', Lit ''\<newline>}'']"

subsection \<open>Names\<close>

definition receiverName :: "tables \<Rightarrow> string \<Rightarrow> string \<Rightarrow> error + string" where
  "receiverName tb userInput structName =
     (if userInput \<noteq> [] then Inr userInput
      else (case structName of
              [] \<Rightarrow> Inl IndexOutOfRange
            | b # _ \<Rightarrow> Inr (strings_ToLower tb (string_of_byte b))))"

text \<open>
  The two patterns of \<^verbatim>\<open>outputFile\<close>, each with its replacement \<^verbatim>\<open>${1}_${2}\<close>.
  \<^verbatim>\<open>ReplaceAllString\<close> rewrites the matches from left to right, none overlapping another,
  and copies the text between them. \<^verbatim>\<open>(.)([A-Z][a-z]+)\<close> matches one character that is
  no line feed, a capital and the longest run of small letters after it;
  \<^verbatim>\<open>([a-z0-9])([A-Z])\<close> matches a small letter or a digit and a capital.
\<close>

function (sequential) firstCapMatcher :: "string \<Rightarrow> string" where
  "firstCapMatcher (c # u # l # rest) =
     (if c \<noteq> CHR 0x0A \<and> isUpperAZ u \<and> isLowerAZ l
      then c # CHR ''_'' # u # l # takeWhile isLowerAZ rest
             @ firstCapMatcher (dropWhile isLowerAZ rest)
      else c # firstCapMatcher (u # l # rest))"
| "firstCapMatcher cs = cs"
  by pat_completeness auto
termination
  by (relation "measure length")
     (auto simp: less_Suc_eq_le intro: le_trans[OF length_dropWhile_le])

fun articleCapMatcher :: "string \<Rightarrow> string" where
  "articleCapMatcher (c # u # rest) =
     (if (isLowerAZ c \<or> isDigit09 c) \<and> isUpperAZ u
      then c # CHR ''_'' # u # articleCapMatcher rest
      else c # articleCapMatcher (u # rest))"
| "articleCapMatcher cs = cs"

definition outputFile :: "'fs env \<Rightarrow> string \<Rightarrow> string \<Rightarrow> string \<Rightarrow> string" where
  "outputFile e output typeName dir =
     (let output' =
        (if output = []
         then (let name = firstCapMatcher typeName;
                   name' = articleCapMatcher name
               in strings_ToLower (unicode e) (name' @ ''_accessor.go''))
         else output)
      in filepath_Join e dir output')"

subsection \<open>Accessors\<close>

definition setterGenerator :: "tables \<Rightarrow> string \<Rightarrow> string \<Rightarrow> Field \<Rightarrow> error + string" where
  "setterGenerator tb userInput structName field =
     (case FieldTag field of
        None \<Rightarrow> Inl NilDereference
      | Some tag \<Rightarrow>
          (case Setter tag of
             None \<Rightarrow> Inl NilDereference
           | Some name \<Rightarrow>
               (let methodName =
                      (if name = [] then ''Set'' @ strings_Title tb (FieldName field) else name)
                in case receiverName tb userInput structName of
                     Inl err \<Rightarrow> Inl err
                   | Inr receiver \<Rightarrow>
                       Execute setter_tpl
                         [(''Receiver'', receiver), (''Struct'', structName),
                          (''MethodName'', methodName), (''Field'', FieldName field),
                          (''Type'', DataType field)])))"

definition getterGenerator :: "tables \<Rightarrow> string \<Rightarrow> string \<Rightarrow> Field \<Rightarrow> error + string" where
  "getterGenerator tb userInput structName field =
     (case FieldTag field of
        None \<Rightarrow> Inl NilDereference
      | Some tag \<Rightarrow>
          (case Getter tag of
             None \<Rightarrow> Inl NilDereference
           | Some name \<Rightarrow>
               (let methodName =
                      (if name = [] then strings_Title tb (FieldName field) else name)
                in case receiverName tb userInput structName of
                     Inl err \<Rightarrow> Inl err
                   | Inr receiver \<Rightarrow>
                       Execute getter_tpl
                         [(''Receiver'', receiver), (''Struct'', structName),
                          (''MethodName'', methodName), (''Field'', FieldName field),
                          (''Type'', DataType field)])))"

subsection \<open>The loops of Generate\<close>

text \<open>
  The innermost loop: the first import of the file with the wanted name is stored, and
  the loop ends there.
\<close>

fun store_import :: "Import list \<Rightarrow> string \<Rightarrow> importMap \<Rightarrow> importMap" where
  "store_import [] typePkg imports = imports"
| "store_import (imp # imps) typePkg imports =
     (if ImportName imp = typePkg
      then AList.update (ImportName imp) (PkgPath imp) imports
      else store_import imps typePkg imports)"

text \<open>
  The body of the loop over the fields of a struct, on the two variables it changes:
  \<^verbatim>\<open>imports\<close> and \<^verbatim>\<open>accessors\<close>. An error of a generator ends \<^verbatim>\<open>Generate\<close>.
\<close>

definition gen_field ::
  "tables \<Rightarrow> string \<Rightarrow> Import list \<Rightarrow> string \<Rightarrow> Field \<Rightarrow> importMap \<times> string list
     \<Rightarrow> error + importMap \<times> string list" where
  "gen_field tb userInput fileImports structName field st =
     (case st of (imports, accessors) \<Rightarrow>
     (case FieldTag field of
        None \<Rightarrow> Inr (imports, accessors)
      | Some tag \<Rightarrow>
          (case index0 (strings_Split (strings_TrimPrefix (DataType field) ''*'') (CHR ''.'')) of
             Inl err \<Rightarrow> Inl err
           | Inr typePkg \<Rightarrow>
               (let imports' =
                      (if map_of imports typePkg = None
                       then store_import fileImports typePkg imports
                       else imports)
                in case (case Getter tag of
                           None \<Rightarrow> Inr accessors
                         | Some _ \<Rightarrow>
                             (case getterGenerator tb userInput structName field of
                                Inl err \<Rightarrow> Inl err
                              | Inr getter \<Rightarrow> Inr (accessors @ [getter]))) of
                     Inl err \<Rightarrow> Inl err
                   | Inr accessors' \<Rightarrow>
                       (case Setter tag of
                          None \<Rightarrow> Inr (imports', accessors')
                        | Some _ \<Rightarrow>
                            (case setterGenerator tb userInput structName field of
                               Inl err \<Rightarrow> Inl err
                             | Inr setter \<Rightarrow> Inr (imports', accessors' @ [setter])))))))"

fun gen_fields ::
  "tables \<Rightarrow> string \<Rightarrow> Import list \<Rightarrow> string \<Rightarrow> Field list \<Rightarrow> importMap \<times> string list
     \<Rightarrow> error + importMap \<times> string list" where
  "gen_fields tb userInput fileImports structName [] st = Inr st"
| "gen_fields tb userInput fileImports structName (field # rest) st =
     (case gen_field tb userInput fileImports structName field st of
        Inl err \<Rightarrow> Inl err
      | Inr st' \<Rightarrow> gen_fields tb userInput fileImports structName rest st')"

fun gen_structs ::
  "tables \<Rightarrow> string \<Rightarrow> string \<Rightarrow> Import list \<Rightarrow> Struct list \<Rightarrow> importMap \<times> string list
     \<Rightarrow> error + importMap \<times> string list" where
  "gen_structs tb userInput typeName fileImports [] st = Inr st"
| "gen_structs tb userInput typeName fileImports (s # ss) st =
     (if StructName s \<noteq> typeName then gen_structs tb userInput typeName fileImports ss st
      else (case gen_fields tb userInput fileImports (StructName s) (Fields s) st of
              Inl err \<Rightarrow> Inl err
            | Inr st' \<Rightarrow> gen_structs tb userInput typeName fileImports ss st'))"

fun gen_files ::
  "tables \<Rightarrow> string \<Rightarrow> string \<Rightarrow> File list \<Rightarrow> importMap \<times> string list
     \<Rightarrow> error + importMap \<times> string list" where
  "gen_files tb userInput typeName [] st = Inr st"
| "gen_files tb userInput typeName (file # files) st =
     (case gen_structs tb userInput typeName (Imports file) (Structs file) st of
        Inl err \<Rightarrow> Inl err
      | Inr st' \<Rightarrow> gen_files tb userInput typeName files st')"

subsection \<open>The buffer, the formatter and Generate\<close>

record generator =
  buf :: string

definition printf :: "generator \<Rightarrow> string \<Rightarrow> generator" where
  "printf g s = g\<lparr>buf := buf g @ s\<rparr>"

definition import_line :: "'fs env \<Rightarrow> importMap \<Rightarrow> generator \<Rightarrow> string \<Rightarrow> generator" where
  "import_line e importMap g name =
     (let path = (case map_of importMap name of None \<Rightarrow> [] | Some p \<Rightarrow> p)
      in if name = filepath_Base e path
         then printf g (CHR 0x09 # CHR 0x22 # path @ [CHR 0x22, CHR 0x0A])
         else printf g (CHR 0x09 # name @ CHR '' '' # CHR 0x22 # path @ [CHR 0x22, CHR 0x0A]))"

definition write_buf :: "'fs env \<Rightarrow> generator \<Rightarrow> string \<Rightarrow> importMap \<Rightarrow> string list \<Rightarrow> generator" where
  "write_buf e g pkgName importMap accessors =
     (let g1 = printf g ''// Code generated by accessory; DO NOT EDIT.\<newline>'';
          g2 = printf g1 ''\<newline>'';
          g3 = printf g2 (''package '' @ pkgName @ ''\<newline>'');
          g4 = printf g3 ''\<newline>'';
          g5 = (if length importMap > 0
                then (let importNames = sort (range_keys e importMap);
                          g' = printf g4 ''import (\<newline>'';
                          g'' = foldl (import_line e importMap) g' importNames
                      in printf g'' '')\<newline>'')
                else g4)
      in foldl (\<lambda>h a. printf h (a @ ''\<newline>'')) g5 accessors)"

definition format :: "'fs env \<Rightarrow> generator \<Rightarrow> string \<times> error option" where
  "format e g =
     (case format_Source e (buf g) of
        Inl err \<Rightarrow> (buf g, Some err)
      | Inr src \<Rightarrow> (src, None))"

text \<open>
  \<^verbatim>\<open>Generate\<close> returns an error or nil and may have written a file: the model returns the
  file system after the call with the error. A panic ends the call like an error, with the
  file system as it was.
\<close>

definition Generate ::
  "'fs env \<Rightarrow> 'fs \<Rightarrow> Package \<Rightarrow> string \<Rightarrow> string \<Rightarrow> string \<Rightarrow> 'fs \<times> error option" where
  "Generate e fs pkg typeName output userInput =
     (let g = \<lparr>buf = []\<rparr>
      in case gen_files (unicode e) userInput typeName (Files pkg) ([], []) of
           Inl err \<Rightarrow> (fs, Some err)
         | Inr (imports, accessors) \<Rightarrow>
             (let g' = write_buf e g (PkgName pkg) imports accessors
              in case format e g' of
                   (content, Some err) \<Rightarrow> (fs, Some err)
                 | (content, None) \<Rightarrow>
                     afero_WriteFile e fs (outputFile e output typeName (Dir pkg)) content))"

subsection \<open>The words of the specification\<close>

text \<open>
  A text is UTF-8 when writing its code points gives the text back. A name with its first
  letter capitalized: the first code point in title case, the bytes after it as they are.
  A name is one word when none of its code points is a separator; a Go identifier, made of
  letters, digits and underscores, is one.
\<close>

definition utf8_text :: "string \<Rightarrow> bool" where
  "utf8_text s = (concat (map EncodeRune (runes s)) = s)"

definition one_word :: "tables \<Rightarrow> string \<Rightarrow> bool" where
  "one_word tb s = (utf8_text s \<and> list_all (\<lambda>r. \<not> isSeparator tb r) (runes s))"

definition capitalize :: "tables \<Rightarrow> string \<Rightarrow> string" where
  "capitalize tb s =
     (case runes s of
        [] \<Rightarrow> []
      | r # _ \<Rightarrow> EncodeRune (unicode_ToTitle tb r) @ drop (length (EncodeRune r)) s)"

text \<open>
  The text of a getter and of a setter, written out, and the accessors of one field for
  a receiver: the getter when the tag asks for one, then the setter when the tag asks for
  one, each under the name of the tag or, when the tag gives none, under the default name.
\<close>

definition getter_text :: "string \<Rightarrow> string \<Rightarrow> string \<Rightarrow> string \<Rightarrow> string \<Rightarrow> string" where
  "getter_text receiver structName methodName fieldName dataType =
     ''\<newline>func ('' @ receiver @ '' *'' @ structName @ '') '' @ methodName @ ''() '' @ dataType
       @ '' {\<newline>'' @ [CHR 0x09] @ ''return '' @ receiver @ ''.'' @ fieldName @ ''\<newline>}''"

definition setter_text :: "string \<Rightarrow> string \<Rightarrow> string \<Rightarrow> string \<Rightarrow> string \<Rightarrow> string" where
  "setter_text receiver structName methodName fieldName dataType =
     ''\<newline>func ('' @ receiver @ '' *'' @ structName @ '') '' @ methodName @ ''(val '' @ dataType
       @ '') {\<newline>'' @ [CHR 0x09] @ receiver @ ''.'' @ fieldName @ '' = val\<newline>}''"

definition accessor_texts :: "tables \<Rightarrow> string \<Rightarrow> string \<Rightarrow> Field \<Rightarrow> string list" where
  "accessor_texts tb receiver structName f =
     (case FieldTag f of
        None \<Rightarrow> []
      | Some tag \<Rightarrow>
          (case Getter tag of
             None \<Rightarrow> []
           | Some name \<Rightarrow>
               [getter_text receiver structName
                  (if name = [] then strings_Title tb (FieldName f) else name)
                  (FieldName f) (DataType f)])
          @ (case Setter tag of
               None \<Rightarrow> []
             | Some name \<Rightarrow>
                 [setter_text receiver structName
                    (if name = [] then ''Set'' @ strings_Title tb (FieldName f) else name)
                    (FieldName f) (DataType f)]))"

text \<open>
  The first character of a text in UTF-8: the first byte tells how many bytes the
  character has.
\<close>

definition utf8_width :: "char \<Rightarrow> nat" where
  "utf8_width b =
     (if b < CHR 0xC0 then 1 else if b < CHR 0xE0 then 2 else if b < CHR 0xF0 then 3 else 4)"

definition first_character :: "string \<Rightarrow> string" where
  "first_character s = (case s of [] \<Rightarrow> [] | b # _ \<Rightarrow> take (utf8_width b) s)"

subsection \<open>The import set, in the words of the specification\<close>

text \<open>
  The qualifier of a declared type: the text before the first dot, after a leading
  pointer marker is taken off.
\<close>

definition typePkg :: "string \<Rightarrow> string" where
  "typePkg dataType = takeWhile (\<lambda>c. c \<noteq> CHR ''.'') (strings_TrimPrefix dataType ''*'')"

definition import_alist :: "Import list \<Rightarrow> (string \<times> string) list" where
  "import_alist imps = map (\<lambda>i. (ImportName i, PkgPath i)) imps"

text \<open>The fields of the structs of a file that carry the requested name, in their order.\<close>

definition selected_fields :: "string \<Rightarrow> File \<Rightarrow> Field list" where
  "selected_fields typeName fl =
     concat (map Fields (filter (\<lambda>s. StructName s = typeName) (Structs fl)))"

text \<open>
  A field produces an accessor when its tag asks for a getter or for a setter. The
  aliases the specification puts into the import set are the qualifiers of such fields
  that are an alias of the file; the aliases the code puts there are those of all fields
  with a tag.
\<close>

definition emits_accessor :: "Field \<Rightarrow> bool" where
  "emits_accessor f =
     (case FieldTag f of None \<Rightarrow> False | Some tag \<Rightarrow> Getter tag \<noteq> None \<or> Setter tag \<noteq> None)"

definition claimed :: "string \<Rightarrow> File \<Rightarrow> string list" where
  "claimed typeName fl =
     [typePkg (DataType f). f \<leftarrow> selected_fields typeName fl, emits_accessor f,
        typePkg (DataType f) \<in> set (map ImportName (Imports fl))]"

definition needed :: "string \<Rightarrow> File \<Rightarrow> string list" where
  "needed typeName fl =
     [typePkg (DataType f). f \<leftarrow> selected_fields typeName fl, FieldTag f \<noteq> None,
        typePkg (DataType f) \<in> set (map ImportName (Imports fl))]"

text \<open>What one field and one file do to the imports, without the accessors.\<close>

definition imports_step :: "Import list \<Rightarrow> Field \<Rightarrow> importMap \<Rightarrow> importMap" where
  "imports_step fileImports f m =
     (if FieldTag f = None then m
      else (let q = typePkg (DataType f)
            in if map_of m q = None
               then (case map_of (import_alist fileImports) q of
                       None \<Rightarrow> m
                     | Some p \<Rightarrow> m @ [(q, p)])
               else m))"

definition file_step :: "string \<Rightarrow> File \<Rightarrow> importMap \<Rightarrow> importMap" where
  "file_step t fl m = fold (imports_step (Imports fl)) (selected_fields t fl) m"

text \<open>The parts of the generated file, as text.\<close>

definition header :: "string \<Rightarrow> string" where
  "header pkgName =
     ''// Code generated by accessory; DO NOT EDIT.\<newline>\<newline>package '' @ pkgName @ ''\<newline>\<newline>''"

definition import_text :: "'fs env \<Rightarrow> importMap \<Rightarrow> string \<Rightarrow> string" where
  "import_text e importMap name =
     (let path = (case map_of importMap name of None \<Rightarrow> [] | Some p \<Rightarrow> p)
      in if name = filepath_Base e path
         then [CHR 0x09, CHR 0x22] @ path @ [CHR 0x22, CHR 0x0A]
         else [CHR 0x09] @ name @ '' '' @ [CHR 0x22] @ path @ [CHR 0x22, CHR 0x0A])"

definition import_block :: "'fs env \<Rightarrow> importMap \<Rightarrow> string list \<Rightarrow> string" where
  "import_block e importMap names =
     ''import (\<newline>'' @ concat (map (import_text e importMap) names) @ '')\<newline>''"

subsection \<open>The name of the output file, in the words of the specification\<close>


fun insert_before_capital :: "string \<Rightarrow> string" where
  "insert_before_capital (c # u # rest) =
     (if (isLowerAZ c \<or> isDigit09 c) \<and> isUpperAZ u
      then c # CHR ''_'' # insert_before_capital (u # rest)
      else c # insert_before_capital (u # rest))"
| "insert_before_capital cs = cs"

subsection \<open>Inputs for the examples\<close>

text \<open>
  An environment to run the examples in: a file system in memory, paths joined by a
  slash, a map ranged over from its last entry to its first, a formatter that only
  knows that a package clause needs a name, and of the tables of Unicode the rows of the
  Greek letters alpha to omega.
\<close>

definition greek_tables :: tables where
  "greek_tables =
     \<lparr>CaseRanges_lower = (\<lambda>r. if 0x391 \<le> r \<and> r \<le> 0x3A9 \<and> r \<noteq> 0x3A2 then r + 32 else r),
      CaseRanges_title =
        (\<lambda>r. if r = 0x3C2 then 0x3A3 else if 0x3B1 \<le> r \<and> r \<le> 0x3C9 then r - 32 else r),
      table_Letter = (\<lambda>r. 0x391 \<le> r \<and> r \<le> 0x3C9 \<and> r \<noteq> 0x3A2),
      table_Digit = (\<lambda>r. False),
      table_White_Space = (\<lambda>r. False)\<rparr>"

definition check_Source :: "string \<Rightarrow> error + string" where
  "check_Source src =
     (let unnamed = ''// Code generated by accessory; DO NOT EDIT.\<newline>\<newline>package \<newline>''
      in if take (length unnamed) src = unnamed then Inl FormatError else Inr src)"

definition mem_env :: "(string \<times> string) list env" where
  "mem_env =
     \<lparr>format_Source = check_Source,
      filepath_Base = (\<lambda>p. rev (takeWhile (\<lambda>c. c \<noteq> CHR ''/'') (rev p))),
      filepath_Join = (\<lambda>dir name. dir @ ''/'' @ name),
      afero_WriteFile = (\<lambda>fs name content. (AList.update name content fs, None)),
      range_keys = (\<lambda>m. rev (map fst m)),
      unicode = greek_tables\<rparr>"

definition name_field :: Field where
  "name_field =
     \<lparr>FieldName = ''name'', DataType = ''string'',
      FieldTag = Some \<lparr>Getter = Some [], Setter = None\<rparr>\<rparr>"

definition age_field :: Field where
  "age_field =
     \<lparr>FieldName = ''age'', DataType = ''int'',
      FieldTag = Some \<lparr>Getter = Some [], Setter = Some []\<rparr>\<rparr>"

definition born_field :: Field where
  "born_field =
     \<lparr>FieldName = ''born'', DataType = ''*time.Time'',
      FieldTag = Some \<lparr>Getter = Some ''Birthday'', Setter = Some ''Reborn''\<rparr>\<rparr>"

definition msg_field :: Field where
  "msg_field =
     \<lparr>FieldName = ''msg'', DataType = ''*pb.Message'',
      FieldTag = Some \<lparr>Getter = Some [], Setter = None\<rparr>\<rparr>"

definition note_field :: Field where
  "note_field = \<lparr>FieldName = ''note'', DataType = ''fmt.Stringer'', FieldTag = None\<rparr>"

definition user_pkg :: Package where
  "user_pkg =
     \<lparr>PkgName = ''model'', Dir = ''.'',
      Files =
        [\<lparr>Imports = [\<lparr>ImportName = ''fmt'', PkgPath = ''fmt''\<rparr>,
                     \<lparr>ImportName = ''pb'', PkgPath = ''example.com/proto''\<rparr>,
                     \<lparr>ImportName = ''time'', PkgPath = ''time''\<rparr>],
          Structs = [\<lparr>StructName = ''User'',
                      Fields = [name_field, age_field, born_field, msg_field, note_field]\<rparr>]\<rparr>]\<rparr>"

text \<open>
  The buffer that \<^verbatim>\<open>Generate\<close> hands to the formatter, when the loops end without an
  error.
\<close>

definition raw_buffer :: "'fs env \<Rightarrow> Package \<Rightarrow> string \<Rightarrow> string \<Rightarrow> string option" where
  "raw_buffer e pkg typeName userInput =
     (case gen_files (unicode e) userInput typeName (Files pkg) ([], []) of
        Inl err \<Rightarrow> None
      | Inr (imports, accessors) \<Rightarrow>
          Some (buf (write_buf e \<lparr>buf = []\<rparr> (PkgName pkg) imports accessors)))"

text \<open>The imports and the accessors that the loops collect for \<^verbatim>\<open>User\<close>.\<close>

definition user_imports :: importMap where
  "user_imports = [(''time'', ''time''), (''pb'', ''example.com/proto'')]"

definition user_accessors :: "string list" where
  "user_accessors =
     [getter_text ''u'' ''User'' ''Name'' ''name'' ''string'',
      getter_text ''u'' ''User'' ''Age'' ''age'' ''int'',
      setter_text ''u'' ''User'' ''SetAge'' ''age'' ''int'',
      getter_text ''u'' ''User'' ''Birthday'' ''born'' ''*time.Time'',
      setter_text ''u'' ''User'' ''Reborn'' ''born'' ''*time.Time'',
      getter_text ''u'' ''User'' ''Msg'' ''msg'' ''*pb.Message'']"

text \<open>
  A struct with a field whose tag asks for no accessor and whose type comes from a
  package, beside a field with a getter.
\<close>

definition seen_field :: Field where
  "seen_field =
     \<lparr>FieldName = ''seen'', DataType = ''time.Time'',
      FieldTag = Some \<lparr>Getter = None, Setter = None\<rparr>\<rparr>"

definition cx_file :: File where
  "cx_file =
     \<lparr>Imports = [\<lparr>ImportName = ''time'', PkgPath = ''time''\<rparr>],
      Structs = [\<lparr>StructName = ''T'', Fields = [seen_field, name_field]\<rparr>]\<rparr>"

definition cx_pkg :: Package where
  "cx_pkg = \<lparr>PkgName = ''model'', Dir = ''.'', Files = [cx_file]\<rparr>"

text \<open>Two packages without a name, which no formatter of Go accepts.\<close>

definition unnamed_pkg :: Package where
  "unnamed_pkg = \<lparr>PkgName = [], Dir = ''.'', Files = []\<rparr>"

definition unnamed_user_pkg :: Package where
  "unnamed_user_pkg = user_pkg\<lparr>PkgName := []\<rparr>"

text \<open>
  The name of a struct that begins with a letter of two bytes: the French word for
  edition, its first letter the capital E with an acute accent, U+00C9, in UTF-8 the bytes
  C3 89.
\<close>

definition Edition :: string where
  "Edition = [CHR 0xC3, CHR 0x89] @ ''dition''"

text \<open>
  Two names with letters outside ASCII: the French word for summer, small e with an acute
  accent (C3 A9) at both ends, and a type name that begins with the Greek capital omega
  (CE A9).
\<close>

definition ete :: string where
  "ete = [CHR 0xC3, CHR 0xA9, CHR ''t'', CHR 0xC3, CHR 0xA9]"


text \<open>A field named by the French word for summer, and that name capitalized.\<close>

definition ete_field :: Field where
  "ete_field =
     \<lparr>FieldName = ete, DataType = ''int'',
      FieldTag = Some \<lparr>Getter = Some [], Setter = Some []\<rparr>\<rparr>"

definition Ete :: string where
  "Ete = [CHR 0xC3, CHR 0x89, CHR ''t'', CHR 0xC3, CHR 0xA9]"


text \<open>The buffer that the generator assembles for \<^verbatim>\<open>User\<close>.\<close>

definition user_raw :: string where
  "user_raw =
     header ''model'' @ import_block mem_env user_imports [''pb'', ''time'']
       @ concat (map (\<lambda>a. a @ ''\<newline>'') user_accessors)"

section \<open>Properties\<close>

subsection \<open>Runes and the functions of the package strings\<close>


lemma DecodeRune_ascii: "c < CHR 0x80 \<Longrightarrow> DecodeRune (c # cs) = (of_char c, 1)"
  by (simp add: DecodeRune_def less_char_def)

lemma runes_ascii: "list_all (\<lambda>c. c < CHR 0x80) s \<Longrightarrow> runes s = map of_char s"
  by (induction s) (simp_all add: DecodeRune_ascii)







lemma title_from_no_separator:
  "\<not> isSeparator tb prev \<Longrightarrow> list_all (\<lambda>r. \<not> isSeparator tb r) rs \<Longrightarrow>
   title_from tb prev rs = rs"
  by (induction rs arbitrary: prev) simp_all

lemma isSeparator_space: "isSeparator tb 0x20"
  by (simp add: isSeparator_def)

lemma strings_Title_one_word:
  assumes "one_word tb s"
  shows "strings_Title tb s = capitalize tb s"
proof (cases "runes s")
  case Nil
  then show ?thesis
    using assms by (simp add: strings_Title_def capitalize_def one_word_def utf8_text_def)
next
  case (Cons r rs)
  from assms Cons have ns: "\<not> isSeparator tb r" "list_all (\<lambda>r. \<not> isSeparator tb r) rs"
    by (simp_all add: one_word_def)
  from assms Cons have s: "s = EncodeRune r @ concat (map EncodeRune rs)"
    by (simp add: one_word_def utf8_text_def)
  have "title_from tb 0x20 (r # rs) = unicode_ToTitle tb r # rs"
    using ns by (simp add: isSeparator_space title_from_no_separator)
  then have "strings_Title tb s = EncodeRune (unicode_ToTitle tb r) @ concat (map EncodeRune rs)"
    by (simp add: strings_Title_def Cons)
  moreover have "drop (length (EncodeRune r)) s = concat (map EncodeRune rs)"
    by (subst s) simp
  ultimately show ?thesis
    by (simp add: capitalize_def Cons)
qed

subsection \<open>Templates and generators\<close>

lemma Execute_getter_tpl:
  "Execute getter_tpl
     [(''Receiver'', r), (''Struct'', s), (''MethodName'', m), (''Field'', f), (''Type'', t)]
     = Inr (getter_text r s m f t)"
  by (simp add: Execute_def getter_tpl_def getter_text_def)

lemma Execute_setter_tpl:
  "Execute setter_tpl
     [(''Receiver'', r), (''Struct'', s), (''MethodName'', m), (''Field'', f), (''Type'', t)]
     = Inr (setter_text r s m f t)"
  by (simp add: Execute_def setter_tpl_def setter_text_def)

lemma index0_Split: "index0 (strings_Split s sep) = Inr (takeWhile (\<lambda>c. c \<noteq> sep) s)"
  by (induction s) (auto simp: index0_def split: list.splits)

lemma getterGenerator_eq:
  "getterGenerator tb u sn f =
     (case FieldTag f of
        None \<Rightarrow> Inl NilDereference
      | Some tag \<Rightarrow>
          (case Getter tag of
             None \<Rightarrow> Inl NilDereference
           | Some name \<Rightarrow>
               (case receiverName tb u sn of
                  Inl err \<Rightarrow> Inl err
                | Inr r \<Rightarrow>
                    Inr (getter_text r sn
                           (if name = [] then strings_Title tb (FieldName f) else name)
                           (FieldName f) (DataType f)))))"
  by (simp add: getterGenerator_def Execute_getter_tpl split: option.splits sum.splits)

lemma setterGenerator_eq:
  "setterGenerator tb u sn f =
     (case FieldTag f of
        None \<Rightarrow> Inl NilDereference
      | Some tag \<Rightarrow>
          (case Setter tag of
             None \<Rightarrow> Inl NilDereference
           | Some name \<Rightarrow>
               (case receiverName tb u sn of
                  Inl err \<Rightarrow> Inl err
                | Inr r \<Rightarrow>
                    Inr (setter_text r sn
                           (if name = [] then ''Set'' @ strings_Title tb (FieldName f) else name)
                           (FieldName f) (DataType f)))))"
  by (simp add: setterGenerator_def Execute_setter_tpl split: option.splits sum.splits)

lemma receiverName_user: "receiverName tb [] ''User'' = Inr ''u''"
  by code_simp

subsection \<open>The loops and the buffer\<close>

lemma update_fresh: "map_of m k = None \<Longrightarrow> AList.update k v m = m @ [(k, v)]"
  by (induction m) (auto split: if_splits)

lemma store_import_eq:
  "map_of m q = None \<Longrightarrow>
   store_import imps q m =
     (case map_of (import_alist imps) q of None \<Rightarrow> m | Some p \<Rightarrow> m @ [(q, p)])"
  by (induction imps) (auto simp: import_alist_def update_fresh)

lemma gen_field_imports:
  "gen_field tb u imps sn f (m, acc) = Inr (m', acc') \<Longrightarrow> m' = imports_step imps f m"
  by (auto simp: gen_field_def imports_step_def index0_Split typePkg_def store_import_eq Let_def
           split: option.splits sum.splits)

lemma gen_fields_imports:
  "gen_fields tb u imps sn fs (m, acc) = Inr (m', acc') \<Longrightarrow> m' = fold (imports_step imps) fs m"
proof (induction fs arbitrary: m acc)
  case Nil
  then show ?case by simp
next
  case (Cons f fs)
  then obtain m1 acc1 where s: "gen_field tb u imps sn f (m, acc) = Inr (m1, acc1)"
    and r: "gen_fields tb u imps sn fs (m1, acc1) = Inr (m', acc')"
    by (auto split: sum.splits)
  from s have "m1 = imports_step imps f m" by (rule gen_field_imports)
  with Cons.IH[OF r] show ?case by simp
qed

lemma gen_structs_imports:
  "gen_structs tb u t imps ss (m, acc) = Inr (m', acc') \<Longrightarrow>
   m' = fold (imports_step imps)
          (concat (map Fields (filter (\<lambda>s. StructName s = t) ss))) m"
proof (induction ss arbitrary: m acc)
  case Nil
  then show ?case by simp
next
  case (Cons s ss)
  show ?case
  proof (cases "StructName s = t")
    case False
    with Cons show ?thesis by simp
  next
    case True
    with Cons.prems obtain m1 acc1
      where s1: "gen_fields tb u imps (StructName s) (Fields s) (m, acc) = Inr (m1, acc1)"
        and r: "gen_structs tb u t imps ss (m1, acc1) = Inr (m', acc')"
      by (auto split: sum.splits)
    from s1 have "m1 = fold (imports_step imps) (Fields s) m" by (rule gen_fields_imports)
    with Cons.IH[OF r] True show ?thesis by simp
  qed
qed

lemma gen_files_imports:
  "gen_files tb u t files (m, acc) = Inr (m', acc') \<Longrightarrow> m' = fold (file_step t) files m"
proof (induction files arbitrary: m acc)
  case Nil
  then show ?case by simp
next
  case (Cons fl fls)
  then obtain m1 acc1
    where s1: "gen_structs tb u t (Imports fl) (Structs fl) (m, acc) = Inr (m1, acc1)"
      and r: "gen_files tb u t fls (m1, acc1) = Inr (m', acc')"
    by (auto split: sum.splits)
  from s1 have "m1 = file_step t fl m"
    unfolding file_step_def selected_fields_def by (rule gen_structs_imports)
  with Cons.IH[OF r] show ?case by simp
qed

lemma import_alist_None:
  "(map_of (import_alist imps) q = None) = (q \<notin> set (map ImportName imps))"
  by (simp add: import_alist_def map_of_eq_None_iff image_image)

lemma imports_step_keys:
  "fst ` set (imports_step imps f m) =
     fst ` set m \<union> (if FieldTag f \<noteq> None \<and> typePkg (DataType f) \<in> set (map ImportName imps)
                      then {typePkg (DataType f)} else {})"
proof (cases "FieldTag f = None \<or> map_of m (typePkg (DataType f)) \<noteq> None")
  case True
  then have "imports_step imps f m = m"
    by (auto simp: imports_step_def Let_def)
  moreover have "map_of m (typePkg (DataType f)) \<noteq> None \<Longrightarrow> typePkg (DataType f) \<in> fst ` set m"
    by (simp add: map_of_eq_None_iff)
  ultimately show ?thesis using True by auto
next
  case False
  show ?thesis
  proof (cases "map_of (import_alist imps) (typePkg (DataType f))")
    case None
    with False have "imports_step imps f m = m"
      by (simp add: imports_step_def Let_def)
    moreover from None have "typePkg (DataType f) \<notin> set (map ImportName imps)"
      by (simp add: import_alist_None)
    ultimately show ?thesis by simp
  next
    case (Some p)
    with False have "imports_step imps f m = m @ [(typePkg (DataType f), p)]"
      by (simp add: imports_step_def Let_def)
    moreover have "typePkg (DataType f) \<in> set (map ImportName imps)"
    proof (rule ccontr)
      assume "typePkg (DataType f) \<notin> set (map ImportName imps)"
      then have "map_of (import_alist imps) (typePkg (DataType f)) = None"
        by (simp add: import_alist_None)
      with Some show False by simp
    qed
    ultimately show ?thesis using False by simp
  qed
qed

lemma imports_step_distinct:
  "distinct (map fst m) \<Longrightarrow> distinct (map fst (imports_step imps f m))"
  by (auto simp: imports_step_def Let_def map_of_eq_None_iff split: option.splits)

lemma fold_step_keys:
  "fst ` set (fold (imports_step imps) fs m) =
     fst ` set m \<union> {typePkg (DataType f) | f. f \<in> set fs \<and> FieldTag f \<noteq> None
                          \<and> typePkg (DataType f) \<in> set (map ImportName imps)}"
proof (induction fs arbitrary: m)
  case Nil
  then show ?case by simp
next
  case (Cons f fs)
  show ?case
    unfolding fold_simps Cons.IH imports_step_keys by auto
qed

lemma fold_step_distinct:
  "distinct (map fst m) \<Longrightarrow> distinct (map fst (fold (imports_step imps) fs m))"
  by (induction fs arbitrary: m) (simp_all add: imports_step_distinct)

lemma set_needed:
  "set (needed t file) =
     {typePkg (DataType f) | f. f \<in> set (selected_fields t file) \<and> FieldTag f \<noteq> None
          \<and> typePkg (DataType f) \<in> set (map ImportName (Imports file))}"
  by (auto simp: needed_def)

lemma file_step_keys: "fst ` set (file_step t file m) = fst ` set m \<union> set (needed t file)"
  unfolding file_step_def fold_step_keys set_needed ..

lemma file_step_distinct: "distinct (map fst m) \<Longrightarrow> distinct (map fst (file_step t file m))"
  unfolding file_step_def by (rule fold_step_distinct)

lemma fold_file_step_keys:
  "fst ` set (fold (file_step t) files m) = fst ` set m \<union> (\<Union>file\<in>set files. set (needed t file))"
  by (induction files arbitrary: m) (auto simp: file_step_keys)

lemma fold_file_step_distinct:
  "distinct (map fst m) \<Longrightarrow> distinct (map fst (fold (file_step t) files m))"
  by (induction files arbitrary: m) (simp_all add: file_step_distinct)

lemma gen_field_eq:
  assumes "receiverName tb u sn = Inr r"
  shows "gen_field tb u imps sn f (m, acc) =
           Inr (imports_step imps f m, acc @ accessor_texts tb r sn f)"
proof (cases "FieldTag f")
  case None
  then show ?thesis
    by (simp add: gen_field_def imports_step_def accessor_texts_def)
next
  case (Some tag)
  have i: "(if map_of m (typePkg (DataType f)) = None
            then store_import imps (typePkg (DataType f)) m else m) = imports_step imps f m"
    using Some by (simp add: imports_step_def Let_def store_import_eq)
  show ?thesis
    unfolding i[symmetric] using Some assms
    by (simp add: gen_field_def index0_Split typePkg_def[symmetric] getterGenerator_eq
          setterGenerator_eq accessor_texts_def Let_def split: option.splits)
qed

lemma gen_fields_eq:
  assumes "receiverName tb u sn = Inr r"
  shows "gen_fields tb u imps sn fs (m, acc) =
           Inr (fold (imports_step imps) fs m, acc @ concat (map (accessor_texts tb r sn) fs))"
  by (induction fs arbitrary: m acc) (simp_all add: gen_field_eq[OF assms])

lemma gen_structs_eq:
  assumes "receiverName tb u t = Inr r"
  shows "gen_structs tb u t imps ss (m, acc) =
           Inr (fold (imports_step imps)
                  (concat (map Fields (filter (\<lambda>s. StructName s = t) ss))) m,
                acc @ concat (map (accessor_texts tb r t)
                                (concat (map Fields (filter (\<lambda>s. StructName s = t) ss)))))"
  by (induction ss arbitrary: m acc) (simp_all add: gen_fields_eq[OF assms])

lemma gen_files_eq:
  assumes "receiverName tb u t = Inr r"
  shows "gen_files tb u t fls (m, acc) =
           Inr (fold (file_step t) fls m,
                acc @ concat (map (accessor_texts tb r t)
                                (concat (map (selected_fields t) fls))))"
  by (induction fls arbitrary: m acc)
     (simp_all add: gen_structs_eq[OF assms] file_step_def selected_fields_def)

lemma gen_files_user:
  "gen_files tb [] ''User'' (Files user_pkg) ([], []) = Inr (user_imports, user_accessors)"
  by code_simp

lemma gen_fields_untagged:
  "\<forall>f\<in>set fs. FieldTag f = None \<Longrightarrow> gen_fields tb u imps sn fs st = Inr st"
  by (induction fs) (auto simp: gen_field_def split: prod.splits)

lemma gen_structs_untagged:
  "\<forall>s\<in>set ss. StructName s = t \<longrightarrow> (\<forall>f\<in>set (Fields s). FieldTag f = None) \<Longrightarrow>
   gen_structs tb u t imps ss st = Inr st"
  by (induction ss) (auto simp: gen_fields_untagged)

lemma gen_files_untagged:
  "\<forall>fl\<in>set fls. \<forall>s\<in>set (Structs fl). StructName s = t \<longrightarrow> (\<forall>f\<in>set (Fields s). FieldTag f = None) \<Longrightarrow>
   gen_files tb u t fls st = Inr st"
  by (induction fls) (auto simp: gen_structs_untagged)

lemma buf_printf: "buf (printf g s) = buf g @ s"
  by (simp add: printf_def)

lemma buf_foldl_printf:
  "buf (foldl (\<lambda>h a. printf h (f a)) g xs) = buf g @ concat (map f xs)"
  by (induction xs arbitrary: g) (simp_all add: buf_printf)

lemma buf_import_line: "buf (import_line e m g name) = buf g @ import_text e m name"
  by (simp add: import_line_def import_text_def Let_def buf_printf)

lemma buf_foldl_import_line:
  "buf (foldl (import_line e m) g names) = buf g @ concat (map (import_text e m) names)"
  by (induction names arbitrary: g) (simp_all add: buf_import_line)

lemma buf_write_buf:
  "buf (write_buf e g pkgName importMap accessors) =
     buf g @ header pkgName
       @ (if importMap = [] then [] else import_block e importMap (sort (range_keys e importMap)))
       @ concat (map (\<lambda>a. a @ ''\<newline>'') accessors)"
  by (simp add: write_buf_def Let_def buf_foldl_printf buf_printf buf_foldl_import_line
        header_def import_block_def)

lemma Generate_eq:
  assumes "gen_files (unicode e) userInput typeName (Files pkg) ([], []) = Inr (imports, accessors)"
  shows "Generate e fs pkg typeName output userInput =
           (case format_Source e (buf (write_buf e \<lparr>buf = []\<rparr> (PkgName pkg) imports accessors)) of
              Inl err \<Rightarrow> (fs, Some err)
            | Inr content \<Rightarrow>
                afero_WriteFile e fs (outputFile e output typeName (Dir pkg)) content)"
  using assms by (simp add: Generate_def format_def split: sum.splits)

subsection \<open>Default names\<close>

text \<open>
  C3. A field that asks for a getter or a setter without naming it, its name one word of
  UTF-8, as every Go identifier is: the getter is called by the name of the field with the
  first letter in title case and nothing else changed, the setter by \<^verbatim>\<open>Set\<close> and that
  same name; an error of the receiver is handed on. So \<^verbatim>\<open>age\<close> becomes \<^verbatim>\<open>Age\<close>, and the
  French word for summer gets the capital E with an acute accent (C3 89).
\<close>

theorem default_method_names:
  assumes "FieldTag field = Some tag"
    and "one_word tb (FieldName field)"
  shows "(Getter tag = Some [] \<longrightarrow>
            getterGenerator tb userInput structName field =
              (case receiverName tb userInput structName of
                 Inl err \<Rightarrow> Inl err
               | Inr receiver \<Rightarrow>
                   Inr (getter_text receiver structName (capitalize tb (FieldName field))
                          (FieldName field) (DataType field))))
       \<and> (Setter tag = Some [] \<longrightarrow>
            setterGenerator tb userInput structName field =
              (case receiverName tb userInput structName of
                 Inl err \<Rightarrow> Inl err
               | Inr receiver \<Rightarrow>
                   Inr (setter_text receiver structName (''Set'' @ capitalize tb (FieldName field))
                          (FieldName field) (DataType field))))
       \<and> capitalize tb ''age'' = ''Age''
       \<and> capitalize tb ete = [CHR 0xC3, CHR 0x89, CHR ''t'', CHR 0xC3, CHR 0xA9]"
proof -
  have t: "strings_Title tb (FieldName field) = capitalize tb (FieldName field)"
    using assms(2) by (rule strings_Title_one_word)
  have g: "Getter tag = Some [] \<longrightarrow>
            getterGenerator tb userInput structName field =
              (case receiverName tb userInput structName of
                 Inl err \<Rightarrow> Inl err
               | Inr receiver \<Rightarrow>
                   Inr (getter_text receiver structName (capitalize tb (FieldName field))
                          (FieldName field) (DataType field)))"
    using assms(1) by (simp add: getterGenerator_eq t split: sum.splits)
  have s: "Setter tag = Some [] \<longrightarrow>
            setterGenerator tb userInput structName field =
              (case receiverName tb userInput structName of
                 Inl err \<Rightarrow> Inl err
               | Inr receiver \<Rightarrow>
                   Inr (setter_text receiver structName (''Set'' @ capitalize tb (FieldName field))
                          (FieldName field) (DataType field)))"
    using assms(1) by (simp add: setterGenerator_eq t split: sum.splits)
  have a: "capitalize tb ''age'' = ''Age''"
    by code_simp
  have b: "capitalize tb ete = [CHR 0xC3, CHR 0x89, CHR ''t'', CHR 0xC3, CHR 0xA9]"
    by code_simp
  from g s a b show ?thesis
    by blast
qed

theorem default_method_names_witness:
  "getterGenerator greek_tables [] ''User'' age_field =
     Inr (getter_text ''u'' ''User'' ''Age'' ''age'' ''int'')
   \<and> setterGenerator greek_tables [] ''User'' age_field =
       Inr (setter_text ''u'' ''User'' ''SetAge'' ''age'' ''int'')
   \<and> getterGenerator greek_tables [] ''User'' ete_field =
       Inr (getter_text ''u'' ''User'' Ete ete ''int'')
   \<and> setterGenerator greek_tables [] ''User'' ete_field =
       Inr (setter_text ''u'' ''User'' (''Set'' @ Ete) ete ''int'')"
proof -
  have tag: "FieldTag age_field = Some \<lparr>Getter = Some [], Setter = Some []\<rparr>"
    by (simp add: age_field_def)
  have word: "one_word greek_tables (FieldName age_field)"
    by code_simp
  have tag': "FieldTag ete_field = Some \<lparr>Getter = Some [], Setter = Some []\<rparr>"
    by (simp add: ete_field_def)
  have word': "one_word greek_tables (FieldName ete_field)"
    by code_simp
  have cap: "capitalize greek_tables ete = Ete"
    using default_method_names[OF tag word] by (simp add: Ete_def)
  from default_method_names[OF tag word, of "[]" "''User''"]
  have a: "getterGenerator greek_tables [] ''User'' age_field =
             Inr (getter_text ''u'' ''User'' ''Age'' ''age'' ''int'')
         \<and> setterGenerator greek_tables [] ''User'' age_field =
             Inr (setter_text ''u'' ''User'' ''SetAge'' ''age'' ''int'')"
    by (simp add: receiverName_user age_field_def)
  from default_method_names[OF tag' word', of "[]" "''User''"] cap
  have b: "getterGenerator greek_tables [] ''User'' ete_field =
             Inr (getter_text ''u'' ''User'' Ete ete ''int'')
         \<and> setterGenerator greek_tables [] ''User'' ete_field =
             Inr (setter_text ''u'' ''User'' (''Set'' @ Ete) ete ''int'')"
    by (simp add: receiverName_user ete_field_def)
  from a b show ?thesis
    by simp
qed

subsection \<open>Named accessors\<close>

text \<open>
  C6. A field of a selected struct whose tag names both accessors, the getter X and the
  setter Y: the field yields exactly two functions, the getter called X and the setter
  called Y, both names as they were given; in the accessors that the loops collect and in
  the buffer they stand after the accessors of the fields before and ahead of those of
  the fields after, the getter first; and \<^verbatim>\<open>Generate\<close> writes what the formatter makes of
  that buffer to the output file, or returns the error of the formatter.
\<close>

theorem named_accessors:
  assumes recv: "receiverName (unicode e) userInput typeName = Inr receiver"
    and pos: "concat (map (selected_fields typeName) (Files pkg)) = before @ field # after"
    and tag: "FieldTag field = Some tag" "Getter tag = Some X" "Setter tag = Some Y"
    and named: "X \<noteq> []" "Y \<noteq> []"
  shows
    "(let getter = getter_text receiver typeName X (FieldName field) (DataType field);
          setter = setter_text receiver typeName Y (FieldName field) (DataType field);
          pre = concat (map (accessor_texts (unicode e) receiver typeName) before);
          post = concat (map (accessor_texts (unicode e) receiver typeName) after);
          imports = fold (file_step typeName) (Files pkg) [];
          raw = header (PkgName pkg)
                  @ (if imports = [] then []
                     else import_block e imports (sort (range_keys e imports)))
                  @ concat (map (\<lambda>a. a @ ''\<newline>'') pre)
                  @ getter @ ''\<newline>'' @ setter @ ''\<newline>''
                  @ concat (map (\<lambda>a. a @ ''\<newline>'') post)
      in accessor_texts (unicode e) receiver typeName field = [getter, setter]
         \<and> gen_files (unicode e) userInput typeName (Files pkg) ([], []) =
             Inr (imports, pre @ [getter, setter] @ post)
         \<and> raw_buffer e pkg typeName userInput = Some raw
         \<and> Generate e fs pkg typeName output userInput =
             (case format_Source e raw of
                Inl err \<Rightarrow> (fs, Some err)
              | Inr content \<Rightarrow>
                  afero_WriteFile e fs (outputFile e output typeName (Dir pkg)) content))"
proof -
  define getter where "getter = getter_text receiver typeName X (FieldName field) (DataType field)"
  define setter where "setter = setter_text receiver typeName Y (FieldName field) (DataType field)"
  define pre where "pre = concat (map (accessor_texts (unicode e) receiver typeName) before)"
  define post where "post = concat (map (accessor_texts (unicode e) receiver typeName) after)"
  define imps where "imps = fold (file_step typeName) (Files pkg) []"
  define raw where "raw = header (PkgName pkg)
                  @ (if imps = [] then []
                     else import_block e imps (sort (range_keys e imps)))
                  @ concat (map (\<lambda>a. a @ ''\<newline>'') pre)
                  @ getter @ ''\<newline>'' @ setter @ ''\<newline>''
                  @ concat (map (\<lambda>a. a @ ''\<newline>'') post)"
  have two: "accessor_texts (unicode e) receiver typeName field = [getter, setter]"
    using tag named by (simp add: accessor_texts_def getter_def setter_def)
  have gen: "gen_files (unicode e) userInput typeName (Files pkg) ([], []) =
               Inr (imps, pre @ [getter, setter] @ post)"
    using gen_files_eq[OF recv, of "Files pkg" "[]" "[]"]
    by (simp add: pos two pre_def post_def imps_def)
  have b: "buf (write_buf e \<lparr>buf = []\<rparr> (PkgName pkg) imps (pre @ [getter, setter] @ post)) = raw"
    by (simp add: buf_write_buf raw_def)
  have rb: "raw_buffer e pkg typeName userInput = Some raw"
    by (simp only: raw_buffer_def gen sum.case prod.case b)
  have G: "Generate e fs pkg typeName output userInput =
             (case format_Source e raw of
                Inl err \<Rightarrow> (fs, Some err)
              | Inr content \<Rightarrow>
                  afero_WriteFile e fs (outputFile e output typeName (Dir pkg)) content)"
    using Generate_eq[OF gen] by (simp only: b)
  from two gen rb G show ?thesis
    unfolding Let_def getter_def setter_def pre_def post_def imps_def raw_def by blast
qed

theorem named_accessors_witness:
  "accessor_texts greek_tables ''u'' ''User'' born_field =
     [getter_text ''u'' ''User'' ''Birthday'' ''born'' ''*time.Time'',
      setter_text ''u'' ''User'' ''Reborn'' ''born'' ''*time.Time'']
   \<and> gen_files greek_tables [] ''User'' (Files user_pkg) ([], []) =
       Inr (user_imports, user_accessors)
   \<and> Generate mem_env [] user_pkg ''User'' [] [] = ([(''./user_accessor.go'', user_raw)], None)"
proof -
  have u: "unicode mem_env = greek_tables"
    by (simp add: mem_env_def)
  have recv: "receiverName (unicode mem_env) [] ''User'' = Inr ''u''"
    by (rule receiverName_user)
  have pos: "concat (map (selected_fields ''User'') (Files user_pkg)) =
               [name_field, age_field] @ born_field # [msg_field, note_field]"
    by (simp add: user_pkg_def selected_fields_def)
  have tag: "FieldTag born_field = Some \<lparr>Getter = Some ''Birthday'', Setter = Some ''Reborn''\<rparr>"
    by (simp add: born_field_def)
  have g: "Getter \<lparr>Getter = Some ''Birthday'', Setter = Some ''Reborn''\<rparr> = Some ''Birthday''"
    and s: "Setter \<lparr>Getter = Some ''Birthday'', Setter = Some ''Reborn''\<rparr> = Some ''Reborn''"
    and x: "''Birthday'' \<noteq> []" and y: "''Reborn'' \<noteq> []"
    by simp_all
  have raw: "raw_buffer mem_env user_pkg ''User'' [] = Some user_raw"
    by code_simp
  have src: "format_Source mem_env user_raw = Inr user_raw"
    by code_simp
  have out: "outputFile mem_env [] ''User'' (Dir user_pkg) = ''./user_accessor.go''"
    by code_simp
  have wr: "afero_WriteFile mem_env [] n c = ([(n, c)], None)" for n c
    by (simp add: mem_env_def)
  from named_accessors[OF recv pos tag g s x y, of "[]" "[]", unfolded Let_def]
  have two: "accessor_texts (unicode mem_env) ''u'' ''User'' born_field =
               [getter_text ''u'' ''User'' ''Birthday'' (FieldName born_field) (DataType born_field),
                setter_text ''u'' ''User'' ''Reborn'' (FieldName born_field) (DataType born_field)]"
    and G: "Generate mem_env [] user_pkg ''User'' [] [] =
              (case format_Source mem_env user_raw of
                 Inl err \<Rightarrow> ([], Some err)
               | Inr content \<Rightarrow>
                   afero_WriteFile mem_env [] (outputFile mem_env [] ''User'' (Dir user_pkg)) content)"
    unfolding raw option.inject by (blast, metis)
  from two have "accessor_texts greek_tables ''u'' ''User'' born_field =
     [getter_text ''u'' ''User'' ''Birthday'' ''born'' ''*time.Time'',
      setter_text ''u'' ''User'' ''Reborn'' ''born'' ''*time.Time'']"
    by (simp add: u born_field_def)
  moreover from G have "Generate mem_env [] user_pkg ''User'' [] [] =
      ([(''./user_accessor.go'', user_raw)], None)"
    by (simp only: src out wr sum.case)
  ultimately show ?thesis
    using gen_files_user[of greek_tables] by simp
qed

subsection \<open>Fields without a tag\<close>

text \<open>
  C7. A field without a tag: the loop body leaves the accessors (and the imports) as they
  were, so no function is generated for the field.
\<close>

theorem gen_field_no_tag:
  "FieldTag field = None \<Longrightarrow>
   gen_field tb userInput fileImports structName field (imports, accessors) = Inr (imports, accessors)"
  by (simp add: gen_field_def)

theorem gen_field_no_tag_witness:
  "FieldTag note_field = None \<and> gen_field greek_tables [] [] ''User'' note_field ([], []) = Inr ([], [])"
proof -
  have h: "FieldTag note_field = None"
    by (simp add: note_field_def)
  from h gen_field_no_tag[OF h, of greek_tables "[]" "[]" "''User''" "[]" "[]"] show ?thesis
    by simp
qed

subsection \<open>The receiver\<close>

text \<open>
  C10. Without an override the receiver is made from the byte at index 0 of the name of
  the struct: the index is out of range exactly when the name is empty, and the call
  returns a receiver exactly when it is not.
\<close>

theorem receiverName_index:
  "(receiverName tb [] structName = Inl IndexOutOfRange) = (structName = [])
   \<and> (\<exists>r. receiverName tb [] structName = Inr r) = (structName \<noteq> [])"
  by (cases structName) (simp_all add: receiverName_def)

lemma receiverName_override:
  "userInput \<noteq> [] \<Longrightarrow> receiverName tb userInput structName = Inr userInput"
  by (simp add: receiverName_def)

lemma receiverName_ascii:
  assumes "b < CHR 0x80"
  shows "receiverName tb [] (b # rest) = Inr [ascii_lower b]"
    and "strings_ToLower tb (first_character (b # rest)) = [ascii_lower b]"
proof -
  from assms have n: "(of_char b :: nat) < 128"
    by (simp add: less_char_def)
  then show "receiverName tb [] (b # rest) = Inr [ascii_lower b]"
    using assms by (simp add: receiverName_def string_of_byte_def strings_ToLower_def)
  from assms have "b < CHR 0xC0"
    by (simp add: less_char_def)
  then show "strings_ToLower tb (first_character (b # rest)) = [ascii_lower b]"
    using assms by (simp add: first_character_def utf8_width_def strings_ToLower_def)
qed

lemma receiverName_examples:
  "receiverName tb [] ''Widget'' = Inr ''w''" "receiverName tb ''self'' ''Widget'' = Inr ''self''"
  by code_simp+

text \<open>
  C9. With an override the receiver is the override, and for a name that begins with an
  ASCII letter it is that letter in lower case (the three lemmas above). For a name that
  begins with a letter of more than one byte the code does not take the first character
  but the first byte: for the struct named by the French word for edition the receiver is
  the small a with a tilde (C3 A3), and the first character in lower case is the small e
  with an acute accent (C3 A9).
\<close>

theorem receiverName_first_byte:
  "receiverName tb [] Edition = Inr [CHR 0xC3, CHR 0xA3]
   \<and> strings_ToLower tb (first_character Edition) = [CHR 0xC3, CHR 0xA9]"
  by code_simp

subsection \<open>A type without accessors\<close>

text \<open>
  C5. When no struct has the requested name, or the structs that have it have no tagged
  field, the loops collect no import and no accessor, the buffer is the header comment and
  the package clause and nothing else, and \<^verbatim>\<open>Generate\<close> goes on to format that buffer and to
  write the result to the output file.
\<close>

theorem no_accessor_scaffold:
  assumes "\<forall>fl\<in>set (Files pkg). \<forall>s\<in>set (Structs fl).
             StructName s = typeName \<longrightarrow> (\<forall>f\<in>set (Fields s). FieldTag f = None)"
  shows "gen_files (unicode e) userInput typeName (Files pkg) ([], []) = Inr ([], [])
       \<and> buf (write_buf e \<lparr>buf = []\<rparr> (PkgName pkg) [] []) = header (PkgName pkg)
       \<and> Generate e fs pkg typeName output userInput =
           (case format_Source e (header (PkgName pkg)) of
              Inl err \<Rightarrow> (fs, Some err)
            | Inr content \<Rightarrow>
                afero_WriteFile e fs (outputFile e output typeName (Dir pkg)) content)"
proof -
  have g: "gen_files (unicode e) userInput typeName (Files pkg) ([], []) = Inr ([], [])"
    using assms by (rule gen_files_untagged)
  have b: "buf (write_buf e \<lparr>buf = []\<rparr> (PkgName pkg) [] []) = header (PkgName pkg)"
    by (simp add: buf_write_buf)
  from g b show ?thesis
    by (simp add: Generate_def format_def split: sum.splits)
qed

theorem no_accessor_scaffold_witness:
  "Generate mem_env [] user_pkg ''Nobody'' [] [] =
     ([(''./nobody_accessor.go'', header ''model'')], None)"
proof -
  have h: "\<forall>fl\<in>set (Files user_pkg). \<forall>s\<in>set (Structs fl).
             StructName s = ''Nobody'' \<longrightarrow> (\<forall>f\<in>set (Fields s). FieldTag f = None)"
    by (simp add: user_pkg_def)
  have f: "format_Source mem_env (header (PkgName user_pkg)) = Inr (header ''model'')"
    by code_simp
  have o: "outputFile mem_env [] ''Nobody'' (Dir user_pkg) = ''./nobody_accessor.go''"
    by code_simp
  have w: "afero_WriteFile mem_env [] n c = ([(n, c)], None)" for n c
    by (simp add: mem_env_def)
  from no_accessor_scaffold[OF h, of mem_env "[]" "[]" "[]"] show ?thesis
    by (simp add: f o w)
qed

subsection \<open>A formatter that fails\<close>

text \<open>
  C1, as the code has it. When the formatter fails, \<^verbatim>\<open>format\<close> hands both the raw buffer and
  the error to \<^verbatim>\<open>Generate\<close>; \<^verbatim>\<open>Generate\<close> returns the error alone and writes no file.
\<close>

theorem format_failure:
  assumes "gen_files (unicode e) userInput typeName (Files pkg) ([], []) = Inr (imports, accessors)"
    and "format_Source e (buf (write_buf e \<lparr>buf = []\<rparr> (PkgName pkg) imports accessors)) = Inl err"
  shows "format e (write_buf e \<lparr>buf = []\<rparr> (PkgName pkg) imports accessors) =
           (buf (write_buf e \<lparr>buf = []\<rparr> (PkgName pkg) imports accessors), Some err)
       \<and> Generate e fs pkg typeName output userInput = (fs, Some err)"
  using assms by (simp add: Generate_def format_def)

theorem format_failure_witness:
  "format mem_env (write_buf mem_env \<lparr>buf = []\<rparr> (PkgName unnamed_pkg) [] []) =
     (header [], Some FormatError)
   \<and> Generate mem_env [] unnamed_pkg ''User'' [] [] = ([], Some FormatError)"
proof -
  have g: "gen_files (unicode mem_env) [] ''User'' (Files unnamed_pkg) ([], []) = Inr ([], [])"
    by (simp add: unnamed_pkg_def)
  have b: "buf (write_buf mem_env \<lparr>buf = []\<rparr> (PkgName unnamed_pkg) [] []) = header []"
    by (simp add: buf_write_buf unnamed_pkg_def)
  have f: "format_Source mem_env
             (buf (write_buf mem_env \<lparr>buf = []\<rparr> (PkgName unnamed_pkg) [] [])) = Inl FormatError"
    unfolding b by code_simp
  from format_failure[OF g f, of "[]" "[]"] b show ?thesis
    by simp
qed

text \<open>
  The caller of \<^verbatim>\<open>Generate\<close> does not receive the raw buffer: two packages with different
  raw buffers, both rejected by the formatter, give the same result, the error and the
  file system as it was.
\<close>

theorem Generate_drops_raw_buffer:
  "raw_buffer mem_env unnamed_pkg ''User'' [] \<noteq> raw_buffer mem_env unnamed_user_pkg ''User'' []
   \<and> Generate mem_env [] unnamed_pkg ''User'' [] [] = ([], Some FormatError)
   \<and> Generate mem_env [] unnamed_user_pkg ''User'' [] [] = ([], Some FormatError)"
  by code_simp

subsection \<open>Determinism\<close>

lemma sort_mset_cong: "mset xs = mset ys \<Longrightarrow> sort xs = sort (ys :: string list)"
  by (rule properties_for_sort) simp_all

text \<open>
  C4. A run differs from another only in the order in which the run time ranges over the
  keys of the import map. Whatever that order is, in two runs on the same package, type
  name, output and receiver, \<^verbatim>\<open>Generate\<close> has the same result and the buffer is the same.
\<close>

theorem Generate_deterministic:
  assumes "\<And>m. mset (range_keys e1 m) = mset (map fst m)"
    and "\<And>m. mset (range_keys e2 m) = mset (map fst m)"
    and "e2 = e1\<lparr>range_keys := range_keys e2\<rparr>"
  shows "Generate e1 fs pkg typeName output userInput = Generate e2 fs pkg typeName output userInput
       \<and> write_buf e1 g pkgName importMap accessors = write_buf e2 g pkgName importMap accessors"
proof -
  have s: "sort (range_keys e1 m) = sort (range_keys e2 m)" for m
    by (rule sort_mset_cong) (simp add: assms(1,2))
  have base: "filepath_Base e2 = filepath_Base e1" and src: "format_Source e2 = format_Source e1"
    and join: "filepath_Join e2 = filepath_Join e1" and wr: "afero_WriteFile e2 = afero_WriteFile e1"
    and uni: "unicode e2 = unicode e1"
    by (subst assms(3), simp)+
  have line: "import_line e2 = import_line e1"
    by (intro ext) (simp add: import_line_def base)
  have w: "write_buf e1 g' n m a = write_buf e2 g' n m a" for g' n m a
    by (simp add: write_buf_def Let_def s line)
  have f: "format e2 = format e1"
    by (intro ext) (simp add: format_def src)
  have out: "outputFile e2 = outputFile e1"
    by (intro ext) (simp add: outputFile_def join uni)
  have "Generate e1 fs pkg typeName output userInput = Generate e2 fs pkg typeName output userInput"
    by (simp add: Generate_def Let_def w f out wr uni split: sum.splits prod.splits option.splits)
  with w show ?thesis
    by simp
qed

theorem Generate_deterministic_witness:
  "Generate mem_env [] user_pkg ''User'' [] [] =
     Generate (mem_env\<lparr>range_keys := map fst\<rparr>) [] user_pkg ''User'' [] []
   \<and> range_keys mem_env user_imports \<noteq> range_keys (mem_env\<lparr>range_keys := map fst\<rparr>) user_imports"
proof -
  have r1: "mset (range_keys mem_env m) = mset (map fst m)" for m
    by (simp add: mem_env_def)
  have r2: "mset (range_keys (mem_env\<lparr>range_keys := map fst\<rparr>) m) = mset (map fst m)" for m
    by simp
  have e: "mem_env\<lparr>range_keys := map fst\<rparr> =
             mem_env\<lparr>range_keys := range_keys (mem_env\<lparr>range_keys := map fst\<rparr>)\<rparr>"
    by simp
  have "range_keys mem_env user_imports \<noteq> range_keys (mem_env\<lparr>range_keys := map fst\<rparr>) user_imports"
    by (simp add: mem_env_def user_imports_def)
  with Generate_deterministic[OF r1 r2 e] show ?thesis
    by simp
qed

subsection \<open>The name of the output file\<close>







lemma capital_cons_cons:
  "insert_before_capital (a # x # xs) =
     a # (if (isLowerAZ a \<or> isDigit09 a) \<and> isUpperAZ x then ''_'' else []) @
       insert_before_capital (x # xs)"
  by simp












subsection \<open>The import set\<close>

text \<open>
  What the loops compute: the aliases of the import map are the qualifiers of the tagged
  fields of the selected structs that are an alias of the file of the field, every alias
  once, and an alias has the path of the first import of that name in the first file
  that needs it.
\<close>

lemma import_map_keys:
  assumes "gen_files tb u t fls ([], []) = Inr (imports, accessors)"
  shows "set (map fst imports) = (\<Union>fl\<in>set fls. set (needed t fl)) \<and> distinct (map fst imports)"
proof -
  have "imports = fold (file_step t) fls []"
    using assms by (rule gen_files_imports)
  then show ?thesis
    using fold_file_step_keys[of t fls "[]"] fold_file_step_distinct[of "[]" t fls] by simp
qed

lemma imports_step_map_of:
  "map_of (imports_step imps f m) a =
     (case map_of m a of
        Some p \<Rightarrow> Some p
      | None \<Rightarrow>
          if FieldTag f \<noteq> None \<and> typePkg (DataType f) = a
          then map_of (import_alist imps) a else None)"
  by (auto simp: imports_step_def Let_def map_add_def split: option.splits)

lemma fold_step_map_of:
  "map_of (fold (imports_step imps) fs m) a =
     (case map_of m a of
        Some p \<Rightarrow> Some p
      | None \<Rightarrow>
          if \<exists>f\<in>set fs. FieldTag f \<noteq> None \<and> typePkg (DataType f) = a
          then map_of (import_alist imps) a else None)"
proof (induction fs arbitrary: m)
  case Nil
  then show ?case by (simp split: option.splits)
next
  case (Cons f fs)
  show ?case
    unfolding fold_simps Cons.IH imports_step_map_of
    by (auto split: option.splits)
qed

lemma file_step_map_of:
  "map_of (file_step t fl m) a =
     (case map_of m a of
        Some p \<Rightarrow> Some p
      | None \<Rightarrow>
          if a \<in> set (needed t fl) then map_of (import_alist (Imports fl)) a else None)"
proof -
  have "a \<notin> set (map ImportName (Imports fl)) \<Longrightarrow> map_of (import_alist (Imports fl)) a = None"
    by (simp add: import_alist_None)
  then show ?thesis
    unfolding file_step_def fold_step_map_of set_needed
    by (auto split: option.splits)
qed

lemma needed_resolves:
  "a \<in> set (needed t fl) \<Longrightarrow> \<exists>p. map_of (import_alist (Imports fl)) a = Some p"
  using import_alist_None[of "Imports fl" a] unfolding set_needed by auto

lemma fold_file_step_map_of:
  "map_of (fold (file_step t) fls m) a =
     (case map_of m a of
        Some p \<Rightarrow> Some p
      | None \<Rightarrow>
          (case find (\<lambda>fl. a \<in> set (needed t fl)) fls of
             None \<Rightarrow> None
           | Some fl \<Rightarrow> map_of (import_alist (Imports fl)) a))"
proof (induction fls arbitrary: m)
  case Nil
  then show ?case by (simp split: option.splits)
next
  case (Cons fl fls)
  show ?case
    unfolding fold_simps Cons.IH file_step_map_of
    using needed_resolves[of a t fl] by (auto split: option.splits)
qed

lemma import_map_exact:
  assumes "gen_files tb u t fls ([], []) = Inr (imports, accessors)"
  shows "map_of imports a =
           (case find (\<lambda>fl. a \<in> set (needed t fl)) fls of
              None \<Rightarrow> None
            | Some fl \<Rightarrow> map_of (import_alist (Imports fl)) a)"
proof -
  have "imports = fold (file_step t) fls []"
    using assms by (rule gen_files_imports)
  then show ?thesis
    by (simp add: fold_file_step_map_of)
qed

text \<open>
  C2. The claim puts into the import set only the qualifiers of the fields that produce
  an accessor. The code resolves the import of every field with a tag, before it looks at
  the getter and the setter. For the struct \<^verbatim>\<open>T\<close>, whose field \<^verbatim>\<open>seen\<close> of the type
  \<^verbatim>\<open>time.Time\<close> has a tag without getter and setter, the claim gives no import; the import
  map of the code holds \<^verbatim>\<open>time\<close>, and the file that is written imports it beside one function
  that does not use it.
\<close>

theorem unused_import:
  "gen_files (unicode mem_env) [] ''T'' (Files cx_pkg) ([], []) =
     Inr ([(''time'', ''time'')], [getter_text ''t'' ''T'' ''Name'' ''name'' ''string''])
   \<and> concat (map (claimed ''T'') (Files cx_pkg)) = []
   \<and> Generate mem_env [] cx_pkg ''T'' [] [] =
       ([(''./t_accessor.go'',
          header ''model'' @ ''import (\<newline>'' @ [CHR 0x09, CHR 0x22] @ ''time'' @ [CHR 0x22]
            @ ''\<newline>)\<newline>'' @ getter_text ''t'' ''T'' ''Name'' ''name'' ''string'' @ ''\<newline>'')],
        None)"
  by code_simp

end
